theory Spec2Isabelle
  imports Complex_Main "HOL-Library.Log_Nat"
begin

section \<open>Data model\<close>

text \<open>
  The numbers that the program is given (ids, shard indices, counts, options) are
  integers, each of them a value that a JavaScript number can hold. What the program
  computes from them is computed as JavaScript does, in double precision: see the next
  section. A field that may be absent (\<open>undefined\<close>) is an \<open>option\<close>.
\<close>

section \<open>JavaScript numbers\<close>

text \<open>
  A number is a double: a rational with a significand of 53 bits and an exponent between
  \<open>-1022\<close> and \<open>1023\<close>, an infinity, or \<open>NaN\<close>. The result of an arithmetic operation
  is the double nearest to the exact result, the one with the even significand when two
  are equally near, and an infinity from \<open>2 ^ 1024\<close> on. \<open>ilog2 x\<close> is the exponent of a
  positive rational, the integer \<open>e\<close> with \<open>2 ^ e \<le> x < 2 ^ (e + 1)\<close>.
\<close>

datatype jsnum = Finite rat | PosInfinity | NegInfinity | NaN

definition ilog2 :: "rat \<Rightarrow> int" where
  "ilog2 x = (if 1 \<le> x then bitlen \<lfloor>x\<rfloor> - 1 else - bitlen (\<lceil>1 / x\<rceil> - 1))"

definition round_half_even :: "rat \<Rightarrow> int" where
  "round_half_even y =
     (let f = \<lfloor>y\<rfloor>; d = y - of_int f
      in if d < 1 / 2 then f else if 1 / 2 < d then f + 1 else if even f then f else f + 1)"

definition to_double :: "rat \<Rightarrow> jsnum" where
  "to_double x =
     (if x = 0 then Finite 0
      else
        let e = max (ilog2 \<bar>x\<bar>) (- 1022);
            u = 2 powi (e - 52);
            r = of_int (round_half_even (\<bar>x\<bar> / u)) * u
        in if 2 powi 1024 \<le> r then (if 0 < x then PosInfinity else NegInfinity)
           else Finite (sgn x * r))"

text \<open>
  \<open>x + 1\<close> and \<open>++x\<close> on a number that is an integer. The sum of a number and 1 is
  never an infinity, so the last case is not met by a number. Below \<open>2 ^ 53\<close> the result
  is the next integer; from \<open>2 ^ 53\<close> on it is \<open>x\<close> itself or \<open>x + 2\<close>.
\<close>

definition js_succ :: "int \<Rightarrow> int" where
  "js_succ x = (case to_double (of_int x + 1) of Finite r \<Rightarrow> \<lfloor>r\<rfloor> | _ \<Rightarrow> x)"

text \<open>\<open>a / b\<close> for a number \<open>a\<close> and an integer \<open>b\<close>, \<open>Math.ceil\<close>, and \<open>Math.max\<close> of an integer and a number.\<close>

fun js_divide :: "jsnum \<Rightarrow> int \<Rightarrow> jsnum" where
  "js_divide (Finite a) b =
     (if b = 0 then (if 0 < a then PosInfinity else if a < 0 then NegInfinity else NaN)
      else to_double (a / of_int b))"
| "js_divide PosInfinity b = (if 0 \<le> b then PosInfinity else NegInfinity)"
| "js_divide NegInfinity b = (if 0 \<le> b then NegInfinity else PosInfinity)"
| "js_divide NaN b = NaN"

fun math_ceil :: "jsnum \<Rightarrow> jsnum" where
  "math_ceil (Finite r) = Finite (of_int \<lceil>r\<rceil>)"
| "math_ceil PosInfinity = PosInfinity"
| "math_ceil NegInfinity = NegInfinity"
| "math_ceil NaN = NaN"

fun math_max :: "int \<Rightarrow> jsnum \<Rightarrow> jsnum" where
  "math_max a (Finite b) = Finite (max (of_int a) b)"
| "math_max a PosInfinity = PosInfinity"
| "math_max a NegInfinity = Finite (of_int a)"
| "math_max a NaN = NaN"

section \<open>Records of the program\<close>

text \<open>
  Modelled from the spec: the type \<open>IPCMessage\<close> (module \<open>ipc/IPC\<close>) is not among the
  sources. A message is an object with the discriminator \<open>name\<close> and a payload; the fields
  below are the ones \<open>ClusterManager.ts\<close> writes and \<open>Cluster.ts\<close> reads. A queue item
  (\<open>ClusterQueue\<close>, not among the sources either) is an object of the same shape: the
  master spreads all of its fields into the message it sends.
\<close>

datatype info_value = Single string | Multiple "string list"

record ipc_message =
  name :: "string option"
  eventName :: "string option"
  value' :: "info_value option"
  clusterID :: "int option"
  firstShardID :: "int option"
  lastShardID :: "int option"
  shardCount :: "int option"

text \<open>\<open>RawCluster\<close> of \<open>Cluster.ts\<close>.\<close>

record RawCluster =
  workerID :: int
  shardCount :: int
  firstShardID :: int
  lastShardID :: int

text \<open>
  Modelled from the spec: the type \<open>ClusterConfig\<close> is imported by \<open>ClusterManager.ts\<close>
  but not declared in the sources. The manager reads \<open>id\<close> and reads and writes
  \<open>workerId\<close>, which is absent until the cluster is spawned.
\<close>

record ClusterConfig =
  id' :: int
  shardCount :: int
  firstShardId :: int
  lastShardId :: int
  workerId :: "int option"

text \<open>
  The options of the gateway client that \<open>Cluster.connect\<close> writes; \<open>rest\<close> stands for
  every other option of the embedding configuration, which the code never touches.
\<close>

record ClientOptions =
  autoreconnect :: "bool option"
  firstShardID :: "int option"
  lastShardID :: "int option"
  maxShards :: "int option"
  rest :: "(string \<times> string) list"

text \<open>The numeric fields of \<open>ClusterManagerOptions\<close>, and the partial options of the constructor.\<close>

record ClusterManagerOptions =
  shardCountOverride :: int
  firstShardId :: int
  lastShardId :: int
  guildsPerShard :: int
  clusterIdOffset :: int
  clusterTimeout :: int
  ipcTimeout :: int
  statsUpdateInterval :: int

record PartialOptions =
  clientOptions :: "ClientOptions option"
  shardCountOverride :: "int option"
  firstShardId :: "int option"
  lastShardId :: "int option"
  guildsPerShard :: "int option"
  clusterIdOffset :: "int option"
  clusterTimeout :: "int option"
  ipcTimeout :: "int option"
  statsUpdateInterval :: "int option"

datatype error =
  DuplicateCluster   \<comment> \<open>\<open>Error("Clusters cannot have the same ID.")\<close>\<close>
| NoClusters         \<comment> \<open>\<open>Error("Cluster strategy failed to produce at least 1 cluster.")\<close>\<close>
| FetchFailed        \<comment> \<open>\<open>Error("Failed to fetch guild count.")\<close>\<close>
| TypeError          \<comment> \<open>a property read or a call on \<open>undefined\<close>\<close>

datatype strategy = ClusterStrategy | ConnectStrategy | ReconnectStrategy

text \<open>
  The state of the master process: the fields of \<open>ClusterManager\<close> (\<open>configs\<close> is the
  private list \<open>#clusters\<close>), the strategies whose \<open>run\<close> has been invoked so far, and
  the part of Node's \<open>cluster\<close> module the manager uses: the counter \<open>ids\<close> that numbers
  forked workers, the ids of the live workers (the keys of \<open>cluster.workers\<close>), and the
  messages handed to \<open>worker.send\<close>, oldest first, each with the id of its worker.
  The \<open>Map\<close> \<open>clusters\<close> is the list of its entries, read with \<open>map_of\<close>; nothing
  in the class iterates over it or over \<open>workers\<close>.
\<close>

record master =
  token :: string
  clientOptions :: ClientOptions
  options :: ClusterManagerOptions
  clusters :: "(int \<times> RawCluster) list"
  workers :: "int \<rightharpoonup> int"
  configs :: "ClusterConfig list"
  invoked :: "strategy list"
  ids :: int
  cluster_workers :: "int list"
  sent :: "(int \<times> ipc_message) list"

type_synonym outcome = "error option \<times> master"

section \<open>The manager\<close>

definition nullish :: "'a option \<Rightarrow> 'a \<Rightarrow> 'a" where
  "nullish x d = (case x of None \<Rightarrow> d | Some v \<Rightarrow> v)"

definition no_ClientOptions :: ClientOptions where
  "no_ClientOptions =
     \<lparr>ClientOptions.autoreconnect = None, ClientOptions.firstShardID = None,
      ClientOptions.lastShardID = None, ClientOptions.maxShards = None,
      ClientOptions.rest = []\<rparr>"

text \<open>The constructor, in a master process that has forked no worker yet.\<close>

definition ClusterManager_new :: "string \<Rightarrow> PartialOptions \<Rightarrow> master" where
  "ClusterManager_new tok opts =
     \<lparr>master.token = tok,
      master.clientOptions = nullish (PartialOptions.clientOptions opts) no_ClientOptions,
      options =
        \<lparr>ClusterManagerOptions.shardCountOverride = nullish (PartialOptions.shardCountOverride opts) 0,
         ClusterManagerOptions.firstShardId = nullish (PartialOptions.firstShardId opts) 0,
         ClusterManagerOptions.lastShardId = nullish (PartialOptions.lastShardId opts) 0,
         ClusterManagerOptions.guildsPerShard = nullish (PartialOptions.guildsPerShard opts) 1500,
         ClusterManagerOptions.clusterIdOffset = nullish (PartialOptions.clusterIdOffset opts) 0,
         ClusterManagerOptions.clusterTimeout = nullish (PartialOptions.clusterTimeout opts) 5000,
         ClusterManagerOptions.ipcTimeout = nullish (PartialOptions.ipcTimeout opts) 15000,
         ClusterManagerOptions.statsUpdateInterval = nullish (PartialOptions.statsUpdateInterval opts) 0\<rparr>,
      clusters = [],
      workers = Map.empty,
      configs = [],
      invoked = [],
      ids = 0,
      cluster_workers = [],
      sent = []\<rparr>"

definition no_options :: PartialOptions where
  "no_options =
     \<lparr>PartialOptions.clientOptions = None, PartialOptions.shardCountOverride = None,
      PartialOptions.firstShardId = None, PartialOptions.lastShardId = None,
      PartialOptions.guildsPerShard = None, PartialOptions.clusterIdOffset = None,
      PartialOptions.clusterTimeout = None, PartialOptions.ipcTimeout = None,
      PartialOptions.statsUpdateInterval = None\<rparr>"

text \<open>\<open>x.id === id || x.workerId === id\<close>: an absent \<open>workerId\<close> equals no number.\<close>

definition matches :: "int \<Rightarrow> ClusterConfig \<Rightarrow> bool" where
  "matches i x = (id' x = i \<or> workerId x = Some i)"

definition getCluster :: "master \<Rightarrow> int \<Rightarrow> ClusterConfig option" where
  "getCluster m i = find (matches i) (configs m)"

text \<open>
  \<open>startCluster\<close> assigns to the object that \<open>find\<close> returned, which is the first
  element of the list that matches: \<open>update_first\<close> is that assignment on the list.
\<close>

fun update_first :: "('a \<Rightarrow> bool) \<Rightarrow> ('a \<Rightarrow> 'a) \<Rightarrow> 'a list \<Rightarrow> 'a list" where
  "update_first P f [] = []"
| "update_first P f (x # xs) = (if P x then f x # xs else x # update_first P f xs)"

text \<open>
  Node's \<open>cluster.fork()\<close>: the new worker's id is the incremented counter. The counter
  counts the forks of one process and stays in the range where the increment is exact.
\<close>

definition fork :: "master \<Rightarrow> int \<times> master" where
  "fork m =
     (ids m + 1, m\<lparr>ids := ids m + 1, cluster_workers := cluster_workers m @ [ids m + 1]\<rparr>)"

definition startCluster :: "master \<Rightarrow> int \<Rightarrow> master" where
  "startCluster m clusterId =
     (case getCluster m clusterId of
        None \<Rightarrow> m
      | Some clusterConfig \<Rightarrow>
          (case fork m of
             (worker_id, m') \<Rightarrow>
               m'\<lparr>configs :=
                     update_first (matches clusterId) (\<lambda>c. c\<lparr>workerId := Some worker_id\<rparr>)
                       (configs m'),
                   workers := (workers m')(worker_id \<mapsto> clusterId)\<rparr>))"

definition addCluster :: "master \<Rightarrow> ClusterConfig \<Rightarrow> outcome" where
  "addCluster m config =
     (case getCluster m (id' config) of
        Some c \<Rightarrow> (Some DuplicateCluster, m)
      | None \<Rightarrow> (None, m\<lparr>configs := configs m @ [config]\<rparr>))"

text \<open>\<open>findIndex\<close> and \<open>splice(index, 1)\<close>: the first config with that id is removed.\<close>

fun remove_first :: "('a \<Rightarrow> bool) \<Rightarrow> 'a list \<Rightarrow> 'a list" where
  "remove_first P [] = []"
| "remove_first P (x # xs) = (if P x then xs else x # remove_first P xs)"

definition removeCluster :: "master \<Rightarrow> int \<Rightarrow> master" where
  "removeCluster m i = m\<lparr>configs := remove_first (\<lambda>x. id' x = i) (configs m)\<rparr>"

section \<open>Messages to the workers\<close>

text \<open>
  \<open>cluster.workers[id]\<close> is \<open>undefined\<close> when no live worker has that id. The non-null
  assertion \<open>!\<close> is erased at run time, so \<open>worker.send\<close> on it throws a
  \<open>TypeError\<close>, and so does reading \<open>workerID\<close> of an absent entry of the map.
\<close>

definition send :: "master \<Rightarrow> int \<Rightarrow> ipc_message \<Rightarrow> master" where
  "send m worker message = m\<lparr>sent := sent m @ [(worker, message)]\<rparr>"

definition alive :: "master \<Rightarrow> int \<Rightarrow> bool" where
  "alive m worker = (worker \<in> set (cluster_workers m))"

text \<open>
  \<open>broadcast\<close> and \<open>fetchInfo\<close> call themselves with the next id. A call that does not
  return has the value \<open>None\<close>: that is the case when the walk reaches a registered id
  from \<open>2 ^ 53\<close> on that \<open>++start\<close> leaves as it is (Node then sends to that worker
  until the stack overflows).
\<close>

partial_function (option) broadcast :: "master \<Rightarrow> int \<Rightarrow> ipc_message \<Rightarrow> outcome option" where
  "broadcast m start message =
     (case map_of (clusters m) start of
        None \<Rightarrow> Some (None, m)
      | Some cluster \<Rightarrow>
          if alive m (workerID cluster)
          then broadcast (send m (workerID cluster) message) (js_succ start) message
          else Some (Some TypeError, m))"

declare broadcast.simps [code]

definition info_message :: "string \<Rightarrow> info_value \<Rightarrow> ipc_message" where
  "info_message e v =
     \<lparr>name = None, eventName = Some e, value' = Some v, clusterID = None,
      ipc_message.firstShardID = None, ipc_message.lastShardID = None,
      ipc_message.shardCount = None\<rparr>"

partial_function (option) fetchInfo ::
  "master \<Rightarrow> int \<Rightarrow> string \<Rightarrow> info_value \<Rightarrow> outcome option" where
  "fetchInfo m start e v =
     (case map_of (clusters m) start of
        None \<Rightarrow> Some (None, m)
      | Some cluster \<Rightarrow>
          if alive m (workerID cluster)
          then fetchInfo (send m (workerID cluster) (info_message e v)) (js_succ start) e v
          else Some (Some TypeError, m))"

declare fetchInfo.simps [code]

definition sendTo :: "master \<Rightarrow> int \<Rightarrow> ipc_message \<Rightarrow> outcome" where
  "sendTo m cluster_id message =
     (case map_of (clusters m) cluster_id of
        None \<Rightarrow> (Some TypeError, m)
      | Some cluster \<Rightarrow>
          if alive m (workerID cluster)
          then (None, send m (workerID cluster) message)
          else (None, m))"

text \<open>
  \<open>updateStats\<close> walks an array of workers that the caller passes, here the list of their
  ids: an index outside the array reads \<open>undefined\<close> and ends the walk. An array has
  fewer than \<open>2 ^ 32\<close> elements, so \<open>++start\<close> is exact on every index the walk reads.
\<close>

definition stats_message :: ipc_message where
  "stats_message =
     \<lparr>name = None, eventName = Some ''statsUpdate'', value' = None, clusterID = None,
      ipc_message.firstShardID = None, ipc_message.lastShardID = None,
      ipc_message.shardCount = None\<rparr>"

function updateStats :: "master \<Rightarrow> int list \<Rightarrow> int \<Rightarrow> master" where
  "updateStats m ws start =
     (if 0 \<le> start \<and> start < int (length ws)
      then updateStats (send m (ws ! nat start) stats_message) ws (start + 1)
      else m)"
  by pat_completeness auto
termination
  by (relation "measure (\<lambda>(m, ws, start). length ws - nat start)") auto

declare updateStats.simps [simp del]

section \<open>The handlers that \<open>launch\<close> registers\<close>

text \<open>The listener of the queue's \<open>execute\<close> event; the message is \<open>{ ...item, eventName: "connect" }\<close>.\<close>

definition on_execute :: "master \<Rightarrow> ipc_message \<Rightarrow> outcome" where
  "on_execute m item =
     (case clusterID item of
        None \<Rightarrow> (None, m)
      | Some cluster_id \<Rightarrow>
          (case map_of (clusters m) cluster_id of
             None \<Rightarrow> (None, m)
           | Some cluster \<Rightarrow>
               if alive m (workerID cluster)
               then (None, send m (workerID cluster) (item\<lparr>eventName := Some ''connect''\<rparr>))
               else (Some TypeError, m)))"

text \<open>\<open>restartCluster\<close> has an empty body; the listener of \<open>exit\<close> calls it.\<close>

definition restartCluster :: "master \<Rightarrow> int \<Rightarrow> int \<Rightarrow> master" where
  "restartCluster m worker code = m"

definition on_exit :: "master \<Rightarrow> int \<Rightarrow> int \<Rightarrow> master" where
  "on_exit m worker code = restartCluster m worker code"

text \<open>
  When a worker exits, Node takes it out of \<open>cluster.workers\<close> and emits \<open>exit\<close>.
\<close>

definition worker_exit :: "master \<Rightarrow> int \<Rightarrow> int \<Rightarrow> master" where
  "worker_exit m worker code =
     on_exit (m\<lparr>cluster_workers := removeAll worker (cluster_workers m)\<rparr>) worker code"

section \<open>Sequences of operations, and \<open>launch\<close>\<close>

text \<open>
  Modelled from the spec: the strategies (module \<open>struct/Strategy\<close>) are not among the
  sources. A strategy is given by the calls it makes on the manager, in order; the first
  call that throws ends it. \<open>Launch cs conn\<close> is \<open>launch\<close> in the master process with
  a cluster strategy that makes the calls \<open>cs\<close> and a connect strategy that makes the
  calls \<open>conn\<close>; the error it returns is the rejection of its asynchronous body.
  \<open>Execute\<close> and \<open>Exit\<close> are one run of the listeners of the queue and of \<open>exit\<close>.
\<close>

datatype op =
  StartCluster int
| AddCluster ClusterConfig
| RemoveCluster int
| Launch "op list" "op list"
| FetchInfo int string info_value
| UpdateStats "int list" int
| Broadcast int ipc_message
| SendTo int ipc_message
| Execute ipc_message
| Exit int int

fun exec :: "op \<Rightarrow> master \<Rightarrow> outcome option"
  and exec_list :: "op list \<Rightarrow> master \<Rightarrow> outcome option" where
  "exec (StartCluster i) m = Some (None, startCluster m i)"
| "exec (AddCluster config) m = Some (addCluster m config)"
| "exec (RemoveCluster i) m = Some (None, removeCluster m i)"
| "exec (Launch cs conn) m =
     (case exec_list cs (m\<lparr>invoked := invoked m @ [ClusterStrategy]\<rparr>) of
        None \<Rightarrow> None
      | Some (Some e, m1) \<Rightarrow> Some (Some e, m1)
      | Some (None, m1) \<Rightarrow>
          if configs m1 = [] then Some (Some NoClusters, m1)
          else exec_list conn (m1\<lparr>invoked := invoked m1 @ [ConnectStrategy]\<rparr>))"
| "exec (FetchInfo start e v) m = fetchInfo m start e v"
| "exec (UpdateStats ws start) m = Some (None, updateStats m ws start)"
| "exec (Broadcast start message) m = broadcast m start message"
| "exec (SendTo i message) m = Some (sendTo m i message)"
| "exec (Execute item) m = Some (on_execute m item)"
| "exec (Exit worker code) m = Some (None, worker_exit m worker code)"
| "exec_list [] m = Some (None, m)"
| "exec_list (x # xs) m =
     (case exec x m of
        None \<Rightarrow> None
      | Some (Some e, m1) \<Rightarrow> Some (Some e, m1)
      | Some (None, m1) \<Rightarrow> exec_list xs m1)"

definition launch :: "master \<Rightarrow> op list \<Rightarrow> op list \<Rightarrow> outcome option" where
  "launch m cs conn = exec (Launch cs conn) m"

text \<open>
  The calls of the embedding program, each of which may throw and be caught: the state
  goes on from wherever the call left it. After a call that does not return there is no
  state.
\<close>

fun run :: "op list \<Rightarrow> master \<Rightarrow> master option" where
  "run [] m = Some m"
| "run (x # xs) m = (case exec x m of None \<Rightarrow> None | Some (e, m1) \<Rightarrow> run xs m1)"

section \<open>The recommended shard count\<close>

text \<open>
  \<open>sessionData\<close> is the answer of \<open>getBotGateway\<close>: \<open>None\<close> when the request was
  rejected (the \<open>catch\<close> turns that into \<open>null\<close>), and \<open>shards\<close> may be missing from it.
  A resolved promise is \<open>Inr\<close>, a rejected one \<open>Inl\<close>.
\<close>

record BotGateway =
  shards :: "int option"

definition fetchGuildCount :: "BotGateway option \<Rightarrow> error + jsnum" where
  "fetchGuildCount sessionData =
     (case sessionData of
        None \<Rightarrow> Inl FetchFailed
      | Some data \<Rightarrow>
          (case shards data of
             None \<Rightarrow> Inl FetchFailed
           | Some n \<Rightarrow> if n = 0 then Inl FetchFailed else Inr (to_double (of_int n * 1000))))"

definition fetchShardCount :: "master \<Rightarrow> BotGateway option \<Rightarrow> error + jsnum" where
  "fetchShardCount m sessionData =
     (case fetchGuildCount sessionData of
        Inl e \<Rightarrow> Inl e
      | Inr guildCount \<Rightarrow>
          Inr (math_max (ClusterManagerOptions.shardCountOverride (options m))
                 (math_ceil
                    (js_divide guildCount (ClusterManagerOptions.guildsPerShard (options m))))))"

section \<open>The worker\<close>

text \<open>
  The gateway client is an external collaborator: what the worker does to it is the list
  of the calls it makes, oldest first: the constructor with its token and options, the
  registration of a listener, \<open>connect\<close>. The logger is not modelled.
\<close>

datatype client_call = New string ClientOptions | On string | Connect

record Client =
  client_token :: string
  client_options :: ClientOptions

record Cluster =
  client :: "Client option"
  id' :: "int option"
  shardCount :: "int option"
  maxShards :: "int option"
  firstShardID :: "int option"
  lastShardID :: "int option"

text \<open>
  The worker process: the \<open>Cluster\<close> that \<open>launch\<close> creates there, the two fields of its
  manager that \<open>connect\<close> reads (\<open>clientOptions\<close> is the manager's own object, which
  \<open>Object.assign\<close> changes), and the calls made on the client class.
\<close>

record worker =
  agent :: Cluster
  token :: string
  clientOptions :: ClientOptions
  calls :: "client_call list"

definition Cluster_new :: Cluster where
  "Cluster_new =
     \<lparr>client = None, Cluster.id' = Some (- 1), Cluster.shardCount = Some 0,
      Cluster.maxShards = Some 0, Cluster.firstShardID = Some 0,
      Cluster.lastShardID = Some 0\<rparr>"

definition worker_new :: "string \<Rightarrow> ClientOptions \<Rightarrow> worker" where
  "worker_new tok opts =
     \<lparr>agent = Cluster_new, worker.token = tok, worker.clientOptions = opts, calls = []\<rparr>"

definition connect :: "worker \<Rightarrow> worker" where
  "connect w =
     (let clientOptions' =
            (worker.clientOptions w)
              \<lparr>ClientOptions.autoreconnect := Some True,
               ClientOptions.firstShardID := Cluster.firstShardID (agent w),
               ClientOptions.lastShardID := Cluster.lastShardID (agent w),
               ClientOptions.maxShards := Cluster.shardCount (agent w)\<rparr>;
          client' = \<lparr>client_token = worker.token w, client_options = clientOptions'\<rparr>
      in w\<lparr>worker.clientOptions := clientOptions',
           agent := (agent w)\<lparr>client := Some client'\<rparr>,
           calls := calls w @
             [New (worker.token w) clientOptions', On ''connect'', On ''shardReady'',
              On ''ready'', Connect]\<rparr>)"

text \<open>\<open>x > 0\<close> where \<open>x\<close> may be \<open>undefined\<close>, which compares as \<open>NaN\<close>.\<close>

definition positive :: "int option \<Rightarrow> bool" where
  "positive x = (case x of None \<Rightarrow> False | Some n \<Rightarrow> 0 < n)"

text \<open>The listener of \<open>message\<close> that \<open>spawn\<close> registers; an empty \<open>name\<close> is falsy.\<close>

definition on_message :: "worker \<Rightarrow> ipc_message \<Rightarrow> worker" where
  "on_message w message =
     (if name message = None \<or> name message = Some [] then w
      else if name message = Some ''connect'' then
        (let w' = w\<lparr>agent := (agent w)
                    \<lparr>Cluster.firstShardID := ipc_message.firstShardID message,
                     Cluster.lastShardID := ipc_message.lastShardID message,
                     Cluster.id' := clusterID message,
                     Cluster.shardCount := ipc_message.shardCount message\<rparr>\<rparr>
         in if positive (Cluster.shardCount (agent w')) then connect w' else w')
      else w)"

section \<open>Example states\<close>

definition example_config :: "int \<Rightarrow> ClusterConfig" where
  "example_config i =
     \<lparr>ClusterConfig.id' = i, ClusterConfig.shardCount = 4, ClusterConfig.firstShardId = 4 * i,
      ClusterConfig.lastShardId = 4 * i + 3, ClusterConfig.workerId = None\<rparr>"

definition raw :: "int \<Rightarrow> RawCluster" where
  "raw w =
     \<lparr>workerID = w, RawCluster.shardCount = 4, RawCluster.firstShardID = 0,
      RawCluster.lastShardID = 3\<rparr>"

text \<open>A manager as the constructor leaves it.\<close>

definition fresh :: master where
  "fresh = ClusterManager_new ''token'' no_options"

text \<open>A queue item for cluster 0 with the shards 0 to 3; it has no field \<open>name\<close>.\<close>

definition connect_item :: ipc_message where
  "connect_item =
     \<lparr>name = None, eventName = None, value' = None, clusterID = Some 0,
      ipc_message.firstShardID = Some 0, ipc_message.lastShardID = Some 3,
      ipc_message.shardCount = Some 4\<rparr>"

text \<open>The same payload under the name that the worker dispatches on.\<close>

definition connect_message :: ipc_message where
  "connect_message = connect_item\<lparr>name := Some ''connect''\<rparr>"

text \<open>
  One worker has been forked, and the embedding program has registered it as cluster 0 in
  the public map \<open>clusters\<close>.
\<close>

definition one_cluster :: master where
  "one_cluster = (snd (fork fresh))\<lparr>clusters := [(0, raw 1)]\<rparr>"

text \<open>
  Three workers, registered as the clusters 0, 1 and 3: there is no cluster 2. In
  \<open>worker_gone\<close> the worker of cluster 0 has exited since.
\<close>

definition three_clusters :: master where
  "three_clusters =
     (snd (fork (snd (fork (snd (fork fresh))))))
       \<lparr>clusters := [(0, raw 1), (1, raw 2), (3, raw 3)]\<rparr>"

definition worker_gone :: master where
  "worker_gone = worker_exit three_clusters 1 1"

text \<open>
  \<open>addCluster\<close> of a config with id 2, then of one with id 3, as a cluster id offset of
  2 numbers them; in \<open>both_started\<close> the two have been started in that order.
\<close>

definition two_configs :: master where
  "two_configs = snd (addCluster (snd (addCluster fresh (example_config 2))) (example_config 3))"

definition both_started :: master where
  "both_started = startCluster (startCluster two_configs 2) 3"

text \<open>A worker whose embedding configuration sets a shard range of its own.\<close>

definition configured_worker :: worker where
  "configured_worker =
     worker_new ''token''
       (no_ClientOptions
          \<lparr>ClientOptions.firstShardID := Some 7, ClientOptions.maxShards := Some 99,
           ClientOptions.rest := [(''compress'', ''true'')]\<rparr>)"

section \<open>Facts about JavaScript numbers\<close>

lemma bitlen_pos: "0 < n \<Longrightarrow> 1 \<le> bitlen n"
  using bitlen_eq_zero_iff [of n] bitlen_nonneg [of n] by linarith

lemma bitlen_rat_bounds:
  assumes "0 < n"
  shows "(2::rat) powi (bitlen n - 1) \<le> of_int n" and "of_int n + 1 \<le> (2::rat) powi (bitlen n)"
proof -
  from assms have b: "1 \<le> bitlen n" by (rule bitlen_pos)
  from bitlen_bounds [OF assms]
  have lo: "2 ^ nat (bitlen n - 1) \<le> n" and hi: "n + 1 \<le> 2 ^ nat (bitlen n)"
    by simp_all
  from lo have "(of_int (2 ^ nat (bitlen n - 1)) :: rat) \<le> of_int n"
    by (simp only: of_int_le_iff)
  with b show "(2::rat) powi (bitlen n - 1) \<le> of_int n"
    by (simp add: power_int_nonneg_exp)
  from hi have "(of_int (n + 1) :: rat) \<le> of_int (2 ^ nat (bitlen n))"
    by (simp only: of_int_le_iff)
  with b show "of_int n + 1 \<le> (2::rat) powi (bitlen n)"
    by (simp add: power_int_nonneg_exp)
qed

lemma ilog2_lower:
  assumes "0 < x"
  shows "2 powi ilog2 x \<le> x"
proof (cases "1 \<le> x")
  case True
  then have n: "0 < \<lfloor>x\<rfloor>" by linarith
  have "2 powi (bitlen \<lfloor>x\<rfloor> - 1) \<le> (of_int \<lfloor>x\<rfloor> :: rat)"
    using n by (rule bitlen_rat_bounds)
  also have "\<dots> \<le> x" by simp
  finally show ?thesis using True by (simp add: ilog2_def)
next
  case False
  with assms have y: "1 < 1 / x" by simp
  then have c: "0 < \<lceil>1 / x\<rceil> - 1" by linarith
  let ?k = "bitlen (\<lceil>1 / x\<rceil> - 1)"
  have "1 / x \<le> of_int \<lceil>1 / x\<rceil>" by simp
  also have "\<dots> = of_int (\<lceil>1 / x\<rceil> - 1) + 1" by simp
  also have "\<dots> \<le> 2 powi ?k"
    using c by (rule bitlen_rat_bounds)
  finally have "1 / x \<le> 2 powi ?k" .
  then have "1 \<le> x * 2 powi ?k"
    using assms by (simp add: field_simps)
  then have "1 / 2 powi ?k \<le> x"
    by (simp add: field_simps)
  then show ?thesis using False by (simp add: ilog2_def power_int_minus_divide)
qed

lemma ilog2_upper:
  assumes "0 < x"
  shows "x < 2 powi (ilog2 x + 1)"
proof (cases "1 \<le> x")
  case True
  then have n: "0 < \<lfloor>x\<rfloor>" by linarith
  have "x < of_int \<lfloor>x\<rfloor> + 1" by linarith
  also have "\<dots> \<le> 2 powi (bitlen \<lfloor>x\<rfloor>)"
    using n by (rule bitlen_rat_bounds)
  finally show ?thesis using True by (simp add: ilog2_def)
next
  case False
  with assms have y: "1 < 1 / x" by simp
  then have c: "0 < \<lceil>1 / x\<rceil> - 1" by linarith
  let ?k = "bitlen (\<lceil>1 / x\<rceil> - 1)"
  have "2 powi (?k - 1) \<le> (of_int (\<lceil>1 / x\<rceil> - 1) :: rat)"
    using c by (rule bitlen_rat_bounds)
  also have "\<dots> < 1 / x" by linarith
  finally have "2 powi (?k - 1) < 1 / x" .
  then have "x * 2 powi (?k - 1) < 1"
    using assms by (simp add: field_simps)
  then have "x < 1 / 2 powi (?k - 1)"
    by (simp add: field_simps)
  also have "\<dots> = 2 powi (- ?k + 1)"
    by (simp flip: power_int_minus_divide)
  finally show ?thesis using False by (simp add: ilog2_def)
qed

lemma round_half_even_bounds:
  "of_int (round_half_even y) \<le> y + 1 / 2" "y - 1 / 2 \<le> of_int (round_half_even y)"
  unfolding round_half_even_def Let_def by (auto; linarith)+

lemma round_half_even_int [simp]: "round_half_even (of_int k) = k"
  by (simp add: round_half_even_def)


lemma to_double_normal:
  assumes "0 < x" and "- 1022 \<le> ilog2 x" and "ilog2 x \<le> 1022"
  shows "to_double x = Finite (of_int (round_half_even (x / 2 powi (ilog2 x - 52))) *
           2 powi (ilog2 x - 52))"
proof -
  let ?e = "ilog2 x"
  let ?u = "(2::rat) powi (?e - 52)"
  let ?r = "of_int (round_half_even (x / ?u)) * ?u"
  have u: "0 < ?u" by simp
  have "of_int (round_half_even (x / ?u)) \<le> x / ?u + 1 / 2"
    by (rule round_half_even_bounds)
  then have "?r \<le> (x / ?u + 1 / 2) * ?u"
    using u by (simp only: mult_le_cancel_right_pos)
  also have "\<dots> = x + ?u / 2"
    using u by (simp add: field_simps)
  also have "\<dots> < 2 powi (?e + 1) + ?u / 2"
    using ilog2_upper [OF assms(1)] by simp
  also have "\<dots> \<le> 2 powi (?e + 1) + 2 powi (?e + 1)"
  proof -
    have "?u \<le> 2 powi (?e + 1)"
      by (rule power_int_increasing) simp_all
    moreover have "?u / 2 \<le> ?u"
      using u by simp
    ultimately show ?thesis by linarith
  qed
  also have "\<dots> = 2 powi (?e + 2)"
    by (simp add: power_int_add)
  also have "\<dots> \<le> 2 powi 1024"
    using assms(3) by (intro power_int_increasing) simp_all
  finally have "\<not> 2 powi 1024 \<le> ?r" by simp
  moreover have "max ?e (- 1022) = ?e"
    using assms(2) by simp
  ultimately show ?thesis
    using assms(1) by (simp add: to_double_def Let_def)
qed

lemma to_double_between:
  assumes x: "0 < x" and e: "- 1022 \<le> ilog2 x" "ilog2 x \<le> 52"
    and lo: "of_int j + 2 powi (ilog2 x - 53) < x"
    and hi: "x < of_int (j + 1) - 2 powi (ilog2 x - 53)"
  shows "\<exists>r. to_double x = Finite r \<and> of_int j < r \<and> r < of_int (j + 1)"
proof -
  let ?e = "ilog2 x"
  let ?u = "(2::rat) powi (?e - 52)"
  let ?N = "(2::int) ^ nat (52 - ?e)"
  let ?m = "round_half_even (x / ?u)"
  have u: "0 < ?u" by simp
  have N: "(of_int ?N :: rat) = 2 powi (52 - ?e)"
    using e by (simp add: power_int_nonneg_exp)
  have Nu: "of_int ?N * ?u = 1"
    unfolding N by (simp flip: power_int_add)
  have half: "2 powi (?e - 53) = ?u / 2"
    by (simp add: power_int_diff)
  have y: "x / ?u = x * of_int ?N"
    using Nu u by (simp add: field_simps)
  have Npos: "0 < (of_int ?N :: rat)" by simp
  have unscale: "of_int (k * ?N) * ?u = (of_int k :: rat)" for k
  proof -
    have "of_int (k * ?N) * ?u = of_int k * (of_int ?N * ?u)"
      by (simp only: of_int_mult mult.assoc)
    then show ?thesis by (simp only: Nu mult_1_right)
  qed
  have "of_int (j * ?N) = (of_int j + ?u / 2) * of_int ?N - 1 / 2"
    using Nu by (simp add: field_simps)
  also have "\<dots> < x * of_int ?N - 1 / 2"
    using lo Npos unfolding half by (simp only: mult_strict_right_mono diff_strict_right_mono)
  also have "\<dots> \<le> of_int ?m"
    using round_half_even_bounds(2) [of "x / ?u"] by (simp only: y)
  finally have "j * ?N < ?m"
    by (simp only: of_int_less_iff)
  then have "of_int (j * ?N) * ?u < of_int ?m * ?u"
    using u by (simp only: of_int_less_iff mult_strict_right_mono)
  then have low: "of_int j < of_int ?m * ?u"
    by (simp only: unscale)
  have "of_int ?m \<le> x * of_int ?N + 1 / 2"
    using round_half_even_bounds(1) [of "x / ?u"] by (simp only: y)
  also have "\<dots> < (of_int (j + 1) - ?u / 2) * of_int ?N + 1 / 2"
    using hi Npos unfolding half by (simp only: mult_strict_right_mono add_strict_right_mono)
  also have "\<dots> = of_int ((j + 1) * ?N)"
    using Nu by (simp add: field_simps)
  finally have "?m < (j + 1) * ?N"
    by (simp only: of_int_less_iff)
  then have "of_int ?m * ?u < of_int ((j + 1) * ?N) * ?u"
    using u by (simp only: of_int_less_iff mult_strict_right_mono)
  then have high: "of_int ?m * ?u < of_int (j + 1)"
    by (simp only: unscale)
  have "to_double x = Finite (of_int ?m * ?u)"
    using x e by (intro to_double_normal) simp_all
  with low high show ?thesis by blast
qed


lemma ilog2_ge:
  assumes "0 < x" and "2 powi n \<le> x"
  shows "n \<le> ilog2 x"
proof (rule ccontr)
  assume "\<not> n \<le> ilog2 x"
  then have "(2::rat) powi (ilog2 x + 1) \<le> 2 powi n"
    by (intro power_int_increasing) simp_all
  with assms(2) ilog2_upper [OF assms(1)] show False by simp
qed

lemma ilog2_less:
  assumes "0 < x" and "x < 2 powi n"
  shows "ilog2 x < n"
proof (rule ccontr)
  assume "\<not> ilog2 x < n"
  then have "(2::rat) powi n \<le> 2 powi ilog2 x"
    by (intro power_int_increasing) simp_all
  with assms(2) ilog2_lower [OF assms(1)] show False by simp
qed

lemma to_double_minus:
  "to_double (- x) =
     (case to_double x of
        Finite r \<Rightarrow> Finite (- r)
      | PosInfinity \<Rightarrow> NegInfinity
      | NegInfinity \<Rightarrow> PosInfinity
      | NaN \<Rightarrow> NaN)"
  by (cases "0 < x"; cases "x = 0") (auto simp: to_double_def Let_def sgn_if)

lemma to_double_pos_int:
  assumes "0 < k" and "k \<le> 2 ^ 53"
  shows "to_double (of_int k) = Finite (of_int k)"
proof -
  let ?x = "of_int k :: rat"
  let ?e = "ilog2 ?x"
  let ?u = "(2::rat) powi (?e - 52)"
  have x: "0 < ?x" using assms(1) by simp
  have "(2::rat) powi 0 \<le> ?x" using assms(1) by simp
  with x have e0: "0 \<le> ?e" by (rule ilog2_ge)
  have "?x \<le> of_int (2 ^ 53)"
    using assms(2) by (simp only: of_int_le_iff)
  also have "\<dots> < 2 powi 54" by simp
  finally have "?e < 54" using x by (intro ilog2_less)
  then have e53: "?e \<le> 53" by simp
  have normal: "to_double ?x = Finite (of_int (round_half_even (?x / ?u)) * ?u)"
    using x e0 e53 by (intro to_double_normal) simp_all
  show ?thesis
  proof (cases "?e \<le> 52")
    case True
    let ?N = "(2::int) ^ nat (52 - ?e)"
    have N: "(of_int ?N :: rat) = 2 powi (52 - ?e)"
      using True by (simp add: power_int_nonneg_exp)
    have Nu: "of_int ?N * ?u = 1"
      unfolding N by (simp flip: power_int_add)
    have "?x / ?u = ?x * of_int ?N"
      using Nu by (simp add: field_simps)
    also have "\<dots> = of_int (k * ?N)" by simp
    finally have "of_int (round_half_even (?x / ?u)) * ?u = of_int (k * ?N) * ?u"
      by (simp only: round_half_even_int)
    also have "\<dots> = ?x * (of_int ?N * ?u)"
      by (simp only: of_int_mult mult.assoc)
    also have "\<dots> = ?x"
      by (simp only: Nu mult_1_right)
    finally show ?thesis using normal by simp
  next
    case False
    with e53 have e: "?e = 53" by simp
    have "(2::rat) powi 53 \<le> ?x"
      using ilog2_lower [OF x] by (simp only: e)
    then have "of_int (2 ^ 53) \<le> ?x" by simp
    then have "2 ^ 53 \<le> k" by (simp only: of_int_le_iff)
    with assms(2) have k: "k = 2 ^ 53" by simp
    have u2: "?u = 2" by (simp add: e)
    have "?x / ?u = of_int (2 ^ 52)"
      unfolding u2 by (simp add: k)
    then have "of_int (round_half_even (?x / ?u)) * ?u = of_int (2 ^ 52) * ?u"
      by (simp only: round_half_even_int)
    also have "\<dots> = ?x"
      unfolding u2 by (simp add: k)
    finally show ?thesis using normal by simp
  qed
qed

lemma to_double_int:
  assumes "\<bar>k\<bar> \<le> 2 ^ 53"
  shows "to_double (of_int k) = Finite (of_int k)"
proof -
  consider "k = 0" | "0 < k" | "k < 0" by linarith
  then show ?thesis
  proof cases
    case 1
    then show ?thesis by (simp add: to_double_def)
  next
    case 2
    with assms show ?thesis by (intro to_double_pos_int) simp_all
  next
    case 3
    with assms have "to_double (of_int (- k)) = Finite (of_int (- k))"
      by (intro to_double_pos_int) simp_all
    then have neg: "to_double (- of_int k) = Finite (- of_int k)"
      by simp
    have "to_double (of_int k) = to_double (- (- of_int k))"
      by simp
    also have "\<dots> =
        (case to_double (- of_int k) of
           Finite r \<Rightarrow> Finite (- r)
         | PosInfinity \<Rightarrow> NegInfinity
         | NegInfinity \<Rightarrow> PosInfinity
         | NaN \<Rightarrow> NaN)"
      by (rule to_double_minus)
    also have "\<dots> = Finite (of_int k)"
      by (simp add: neg)
    finally show ?thesis .
  qed
qed


lemma to_double_quotient_pos:
  assumes a: "0 < a" "a < 2 ^ 53" and b: "0 < b" "b \<le> 2 ^ 53"
  shows "\<exists>r. to_double (of_int a / of_int b) = Finite r \<and>
           \<lceil>r\<rceil> = \<lceil>of_int a / of_int b :: rat\<rceil> \<and> \<lfloor>r\<rfloor> = \<lfloor>of_int a / of_int b :: rat\<rfloor>"
proof (cases "b dvd a")
  case True
  then obtain q where q: "a = b * q" ..
  with a b have "0 < q"
    by (simp add: zero_less_mult_iff)
  moreover have "q \<le> a"
    using q a b \<open>0 < q\<close> by (simp add: mult_le_cancel_right1)
  ultimately have "\<bar>q\<bar> \<le> 2 ^ 53"
    using a by simp
  then have "to_double (of_int q) = Finite (of_int q)"
    by (rule to_double_int)
  moreover have "(of_int a / of_int b :: rat) = of_int q"
    using q b by simp
  ultimately show ?thesis by simp
next
  case False
  let ?x = "of_int a / of_int b :: rat"
  let ?j = "a div b"
  let ?m = "a mod b"
  let ?e = "ilog2 ?x"
  have bpos: "0 < (of_int b :: rat)" using b by simp
  have "?m \<noteq> 0" using False by (simp add: dvd_eq_mod_eq_0)
  moreover have "0 \<le> ?m" "?m < b"
    using b by (simp_all add: pos_mod_sign pos_mod_bound)
  ultimately have m: "0 < ?m" "?m < b" by simp_all
  have "a = b * ?j + ?m" by simp
  then have "(of_int a :: rat) = of_int b * of_int ?j + of_int ?m"
    by (metis of_int_add of_int_mult)
  then have split: "?x = of_int ?j + of_int ?m / of_int b"
    using bpos by (simp add: field_simps)
  have x: "0 < ?x" using a b by simp
  have "?x \<le> of_int a"
    using a b by (simp add: field_simps mult_le_cancel_left1)
  also have "\<dots> < of_int (2 ^ 53)"
    using a by (simp only: of_int_less_iff)
  finally have x53: "?x < 2 powi 53" by simp
  with x have "?e < 53" by (rule ilog2_less)
  then have e52: "?e \<le> 52" by simp
  have "of_int b * (2::rat) powi ?e \<le> of_int b * ?x"
    using ilog2_lower [OF x] bpos by (simp only: mult_le_cancel_left_pos)
  also have "\<dots> = of_int a" using bpos by simp
  also have "\<dots> < 2 powi 53"
    using a by (metis of_int_less_iff of_int_numeral of_int_power power_int_numeral)
  finally have "of_int b * (2::rat) powi ?e < 2 powi 53" .
  then have "of_int b * ((2::rat) powi ?e / 2 powi 53) < 1"
    by (simp add: field_simps)
  then have "of_int b * (2::rat) powi (?e - 53) < 1"
    by (simp add: power_int_diff)
  then have gap: "(2::rat) powi (?e - 53) < 1 / of_int b"
    using bpos by (simp add: field_simps)
  have "(1::rat) / of_int b \<le> 1" using b by simp
  with gap have "(2::rat) powi (?e - 53) < 2 powi 0" by simp
  have "(2::rat) powi (- 53) \<le> 1 / of_int b"
  proof -
    have "(of_int b :: rat) \<le> of_int (2 ^ 53)"
      using b by (simp only: of_int_le_iff)
    then have "(of_int b :: rat) \<le> 2 ^ 53" by simp
    then have "1 / (2 ^ 53 :: rat) \<le> 1 / of_int b"
      using bpos by (simp add: frac_le)
    then show ?thesis by (simp add: power_int_minus_divide)
  qed
  also have "\<dots> \<le> ?x"
    using a b by (simp add: divide_right_mono)
  finally have "- 53 \<le> ?e" using x by (intro ilog2_ge)
  then have e1022: "- 1022 \<le> ?e" by simp
  have one: "(1::rat) / of_int b \<le> of_int ?m / of_int b"
    using m bpos by (simp add: divide_right_mono)
  have lo: "of_int ?j + 2 powi (?e - 53) < ?x"
    using gap one unfolding split by simp
  have "1 \<le> b - ?m" using m by simp
  then have "(1::rat) \<le> of_int (b - ?m)"
    by (simp only: of_int_1_le_iff)
  then have "(1::rat) / of_int b \<le> of_int (b - ?m) / of_int b"
    using bpos by (intro divide_right_mono) simp_all
  also have "\<dots> = 1 - of_int ?m / of_int b"
    using bpos by (simp add: field_simps)
  finally have "of_int ?m / of_int b \<le> 1 - (1::rat) / of_int b" by simp
  then have hi: "?x < of_int (?j + 1) - 2 powi (?e - 53)"
    using gap unfolding split by simp
  from to_double_between [OF x e1022 e52 lo hi]
  obtain r where r: "to_double ?x = Finite r" "of_int ?j < r" "r < of_int (?j + 1)"
    by blast
  have fl: "\<lfloor>?x\<rfloor> = ?j" by (rule floor_divide_of_int_eq)
  have "of_int ?j < ?x" "?x < of_int (?j + 1)"
    using lo hi by (simp_all add: less_trans [OF _ lo] order_less_trans)
  then have "\<lceil>?x\<rceil> = ?j + 1" "\<lfloor>?x\<rfloor> = ?j"
    by (simp_all add: ceiling_unique floor_unique)
  moreover from r have "\<lceil>r\<rceil> = ?j + 1" "\<lfloor>r\<rfloor> = ?j"
    by (simp_all add: ceiling_unique floor_unique)
  ultimately show ?thesis using r(1) by simp
qed

lemma js_succ_safe:
  assumes "- (2 ^ 53) \<le> x" and "x < 2 ^ 53"
  shows "js_succ x = x + 1"
proof -
  from assms have "\<bar>x + 1\<bar> \<le> 2 ^ 53" by simp
  then have "to_double (of_int (x + 1)) = Finite (of_int (x + 1))"
    by (rule to_double_int)
  then show ?thesis
    by (simp add: js_succ_def)
qed

lemma to_double_quotient:
  assumes a: "0 < a" "a < 2 ^ 53" and b: "b \<noteq> 0" "\<bar>b\<bar> \<le> 2 ^ 53"
  shows "math_ceil (to_double (of_int a / of_int b)) =
           Finite (of_int \<lceil>of_int a / of_int b :: rat\<rceil>)"
proof (cases "0 < b")
  case True
  with a b obtain r where "to_double (of_int a / of_int b) = Finite r"
    "\<lceil>r\<rceil> = \<lceil>of_int a / of_int b :: rat\<rceil>"
    using to_double_quotient_pos [of a b] by auto
  then show ?thesis by simp
next
  case False
  with b have nb: "0 < - b" "- b \<le> 2 ^ 53" by simp_all
  from to_double_quotient_pos [OF a nb]
  obtain r where r: "to_double (of_int a / of_int (- b)) = Finite r"
    "\<lfloor>r\<rfloor> = \<lfloor>of_int a / of_int (- b) :: rat\<rfloor>"
    by auto
  have "to_double (of_int a / of_int b) = to_double (- (of_int a / of_int (- b)))"
    by simp
  also have "\<dots> = Finite (- r)"
    by (simp only: to_double_minus r(1) jsnum.case)
  finally have "math_ceil (to_double (of_int a / of_int b)) = Finite (of_int \<lceil>- r\<rceil>)"
    by simp
  also have "\<lceil>- r\<rceil> = - \<lfloor>r\<rfloor>" by (rule ceiling_minus)
  also have "- \<lfloor>r\<rfloor> = \<lceil>- (of_int a / of_int (- b) :: rat)\<rceil>"
    by (simp only: r(2) ceiling_minus)
  also have "- (of_int a / of_int (- b) :: rat) = of_int a / of_int b"
    by simp
  finally show ?thesis .
qed

lemma ceiling_rat_real:
  "\<lceil>of_int a / of_int b :: rat\<rceil> = \<lceil>real_of_int a / real_of_int b\<rceil>"
proof -
  have "\<lceil>of_int a / of_int b :: rat\<rceil> = - \<lfloor>of_int (- a) / of_int b :: rat\<rfloor>"
    by (simp add: ceiling_def)
  also have "\<dots> = - ((- a) div b)"
    by (simp only: floor_divide_of_int_eq)
  also have "\<dots> = - \<lfloor>real_of_int (- a) / real_of_int b\<rfloor>"
    by (simp only: floor_divide_of_int_eq)
  also have "\<dots> = \<lceil>real_of_int a / real_of_int b\<rceil>"
    by (simp add: ceiling_def)
  finally show ?thesis .
qed

text \<open>
  Beyond the integers below \<open>2 ^ 53\<close> the arithmetic rounds: the product of
  \<open>2 ^ 53 - 1\<close> and 1000 ends in 0976, not in 1000; the ceiling of a rounded quotient can
  be one less than the ceiling of the exact quotient; and \<open>2 ^ 53 + 1\<close> is \<open>2 ^ 53\<close>.
\<close>

lemma beyond_the_safe_range:
  "fetchGuildCount (Some \<lparr>shards = Some 9007199254740991\<rparr>) =
     Inr (Finite 9007199254740990976)"
  "math_ceil (js_divide (Finite 15762598695801000) 7) = Finite 2251799813685857"
  "js_succ 9007199254740992 = 9007199254740992"
  by code_simp+

section \<open>Facts about the example states\<close>

lemma two_configs_fields:
  "configs two_configs = [example_config 2, example_config 3]" "ids two_configs = 0"
  by (simp_all add: two_configs_def fresh_def addCluster_def getCluster_def
      ClusterManager_new_def example_config_def matches_def)

lemma started_once:
  "configs (startCluster two_configs 2) =
     [(example_config 2)\<lparr>workerId := Some 1\<rparr>, example_config 3]"
  "ids (startCluster two_configs 2) = 1"
  by (simp_all add: startCluster_def getCluster_def two_configs_fields fork_def matches_def
      example_config_def)

lemma both_started_configs:
  "configs both_started =
     [(example_config 2)\<lparr>workerId := Some 1\<rparr>, (example_config 3)\<lparr>workerId := Some 2\<rparr>]"
  unfolding both_started_def
  by (simp add: startCluster_def [of "startCluster two_configs 2"] getCluster_def started_once
      fork_def matches_def example_config_def)

lemma one_cluster_fields:
  "clusters one_cluster = [(0, raw 1)]" "cluster_workers one_cluster = [1]"
  by (simp_all add: one_cluster_def fork_def fresh_def ClusterManager_new_def)

lemma three_clusters_fields:
  "clusters three_clusters = [(0, raw 1), (1, raw 2), (3, raw 3)]"
  "cluster_workers three_clusters = [1, 2, 3]"
  "sent three_clusters = []"
  by (simp_all add: three_clusters_def fork_def fresh_def ClusterManager_new_def)

lemma worker_gone_fields:
  "clusters worker_gone = [(0, raw 1), (1, raw 2), (3, raw 3)]"
  "cluster_workers worker_gone = [2, 3]"
  "sent worker_gone = []"
  by (simp_all add: worker_gone_def worker_exit_def on_exit_def restartCluster_def
      three_clusters_fields)

lemma connect_item_fields:
  "clusterID connect_item = Some 0" "name connect_item = None"
  by (simp_all add: connect_item_def)

lemma fresh_options:
  "ClusterManagerOptions.guildsPerShard (options fresh) = 1500"
  "ClusterManagerOptions.shardCountOverride (options fresh) = 0"
  by (simp_all add: fresh_def ClusterManager_new_def no_options_def nullish_def)

section \<open>The connect message (C1)\<close>

text \<open>
  C1 says that the message the master sends for an executed queue item carries the
  discriminator \<open>name\<close> with the value \<open>connect\<close>, so that the worker dispatches it. The
  listener sets \<open>eventName\<close>, not \<open>name\<close>: for the item of cluster 0, registered with the
  live worker 1, the message that worker 1 is sent has no \<open>name\<close>, and the listener of
  the worker returns at its first line and leaves the worker as it was.
\<close>

theorem execute_message_has_no_name:
  "on_execute one_cluster connect_item =
     (None, send one_cluster 1 (connect_item\<lparr>eventName := Some ''connect''\<rparr>)) \<and>
   name (connect_item\<lparr>eventName := Some ''connect''\<rparr>) = None \<and>
   on_message (worker_new ''token'' no_ClientOptions)
       (connect_item\<lparr>eventName := Some ''connect''\<rparr>) =
     worker_new ''token'' no_ClientOptions"
proof -
  have e: "on_execute one_cluster connect_item =
     (None, send one_cluster 1 (connect_item\<lparr>eventName := Some ''connect''\<rparr>))"
    by (simp add: on_execute_def one_cluster_fields connect_item_fields alive_def raw_def)
  have n: "name (connect_item\<lparr>eventName := Some ''connect''\<rparr>) = None"
    by (simp add: connect_item_fields)
  have h: "on_message w (connect_item\<lparr>eventName := Some ''connect''\<rparr>) = w" for w
    unfolding on_message_def using n by simp
  show ?thesis
    by (intro conjI) (rule e, rule n, rule h)
qed

section \<open>The exit of a worker (C2)\<close>

text \<open>
  C2 says that the listener of \<open>exit\<close> invokes the reconnect strategy. It calls
  \<open>restartCluster\<close>, whose body is empty: for every worker and every exit code the
  listener returns the state it was given, so no strategy is invoked, nothing is forked
  and nothing is sent; all that an exit changes is that Node forgets the worker.
\<close>

theorem restartCluster_does_nothing:
  "on_exit m worker code = m \<and>
   invoked (worker_exit m worker code) = invoked m \<and>
   worker_exit m worker code = m\<lparr>cluster_workers := removeAll worker (cluster_workers m)\<rparr>"
  by (simp add: on_exit_def restartCluster_def worker_exit_def)

section \<open>Duplicate ids (C3)\<close>

lemma find_matches_Some:
  "c \<in> set xs \<Longrightarrow> ClusterConfig.id' c = i \<Longrightarrow> find (matches i) xs \<noteq> None"
  by (auto simp: find_None_iff matches_def)

text \<open>
  C3: for every manager state and every config whose id equals the id of a config that is
  already in the list, \<open>addCluster\<close> throws and leaves the state, and so the list of
  configs, as it was.
\<close>

theorem addCluster_duplicate:
  assumes "c \<in> set (configs m)" and "ClusterConfig.id' c = ClusterConfig.id' config"
  shows "addCluster m config = (Some DuplicateCluster, m)"
proof -
  from assms have "find (matches (ClusterConfig.id' config)) (configs m) \<noteq> None"
    by (rule find_matches_Some)
  then obtain d where "getCluster m (ClusterConfig.id' config) = Some d"
    by (auto simp: getCluster_def)
  then show ?thesis
    by (simp add: addCluster_def)
qed

theorem addCluster_duplicate_witness:
  "example_config 3 \<in> set (configs two_configs) \<and>
   ClusterConfig.id' (example_config 3) =
     ClusterConfig.id' ((example_config 3)\<lparr>ClusterConfig.shardCount := 9\<rparr>) \<and>
   addCluster two_configs ((example_config 3)\<lparr>ClusterConfig.shardCount := 9\<rparr>) =
     (Some DuplicateCluster, two_configs) \<and>
   configs two_configs = [example_config 2, example_config 3]"
proof -
  have a: "example_config 3 \<in> set (configs two_configs)"
    by (simp add: two_configs_fields)
  have b: "ClusterConfig.id' (example_config 3) =
      ClusterConfig.id' ((example_config 3)\<lparr>ClusterConfig.shardCount := 9\<rparr>)"
    by simp
  have c: "addCluster two_configs ((example_config 3)\<lparr>ClusterConfig.shardCount := 9\<rparr>) =
      (Some DuplicateCluster, two_configs)"
    using a b by (rule addCluster_duplicate)
  show ?thesis
    by (intro conjI) (rule a, rule b, rule c, rule two_configs_fields)
qed

section \<open>Broadcast (C4)\<close>

lemma send_fields:
  "clusters (send m w message) = clusters m"
  "alive (send m w message) = alive m"
  "sent (send m w message) = sent m @ [(w, message)]"
  by (simp_all add: send_def alive_def fun_eq_iff)

lemma send_sent_append:
  "(send m w message)\<lparr>sent := sent (send m w message) @ xs\<rparr> =
   m\<lparr>sent := sent m @ (w, message) # xs\<rparr>"
  by (simp add: send_def)

text \<open>
  With live workers, and ids in the range where \<open>++start\<close> is exact, \<open>broadcast\<close>
  sends the message to the workers of the run of registered ids from \<open>s\<close> up to the
  first gap \<open>g\<close>, in ascending order, and to no one else.
\<close>

lemma broadcast_live_run:
  assumes "s \<le> g" and "map_of (clusters m) g = None"
    and "\<And>j. s \<le> j \<Longrightarrow> j < g \<Longrightarrow> \<exists>c. map_of (clusters m) j = Some c \<and> alive m (workerID c)"
    and "- (2 ^ 53) \<le> s" and "g \<le> 2 ^ 53"
  shows "broadcast m s message =
           Some (None, m\<lparr>sent := sent m @
              map (\<lambda>k. (workerID (the (map_of (clusters m) k)), message)) [s..g - 1]\<rparr>)"
  using assms
proof (induction "nat (g - s)" arbitrary: s m)
  case 0
  then have "s = g" by simp
  with "0.prems"(2) show ?case
    by (simp add: broadcast.simps [of m])
next
  case (Suc n)
  then have less: "s < g" by simp
  with Suc.prems(3) [of s] obtain c
    where c: "map_of (clusters m) s = Some c" "alive m (workerID c)"
    by auto
  let ?m' = "send m (workerID c) message"
  from less Suc.prems(4,5) have next_id: "js_succ s = s + 1"
    by (intro js_succ_safe) simp_all
  have step: "broadcast m s message = broadcast ?m' (s + 1) message"
    using c by (simp add: broadcast.simps [of m] next_id)
  have "broadcast ?m' (s + 1) message =
      Some (None, ?m'\<lparr>sent := sent ?m' @
         map (\<lambda>k. (workerID (the (map_of (clusters ?m') k)), message)) [s + 1..g - 1]\<rparr>)"
  proof (rule Suc.hyps(1))
    show "n = nat (g - (s + 1))" using Suc.hyps(2) by simp
    show "s + 1 \<le> g" using less by simp
    show "map_of (clusters ?m') g = None"
      using Suc.prems(2) by (simp add: send_fields)
    show "\<exists>d. map_of (clusters ?m') j = Some d \<and> alive ?m' (workerID d)"
      if "s + 1 \<le> j" "j < g" for j
      using Suc.prems(3) [of j] that by (simp add: send_fields)
    show "- (2 ^ 53) \<le> s + 1" using Suc.prems(4) by simp
    show "g \<le> 2 ^ 53" by (rule Suc.prems(5))
  qed
  then have rest: "broadcast ?m' (s + 1) message =
      Some (None, ?m'\<lparr>sent := sent ?m' @
         map (\<lambda>k. (workerID (the (map_of (clusters m) k)), message)) [s + 1..g - 1]\<rparr>)"
    by (simp add: send_fields)
  from less have upto: "[s..g - 1] = s # [s + 1..g - 1]"
    by (simp add: upto_rec1)
  show ?case
    by (simp only: step rest send_sent_append upto list.map c option.sel)
qed

lemma broadcast_live_workers:
  "broadcast three_clusters 0 connect_item =
     Some (None, three_clusters\<lparr>sent := [(1, connect_item), (2, connect_item)]\<rparr>)"
proof -
  have "broadcast three_clusters 0 connect_item =
      Some (None, three_clusters\<lparr>sent := sent three_clusters @
         map (\<lambda>k. (workerID (the (map_of (clusters three_clusters) k)), connect_item))
           [0..2 - 1]\<rparr>)"
  proof (rule broadcast_live_run)
    show "\<exists>c. map_of (clusters three_clusters) j = Some c \<and> alive three_clusters (workerID c)"
      if "0 \<le> j" "j < 2" for j
    proof -
      from that have "j = 0 \<or> j = 1" by auto
      then show ?thesis
        by (auto simp: three_clusters_fields alive_def raw_def)
    qed
  qed (simp_all add: three_clusters_fields)
  moreover have "[0..2 - 1] = [0, 1::int]"
    by (simp add: upto_rec1)
  ultimately show ?thesis
    by (simp add: three_clusters_fields raw_def)
qed

text \<open>
  At a registered id that \<open>++start\<close> does not change, with a live worker, the call
  does not return.
\<close>

lemma broadcast_never_returns:
  assumes "broadcast m k message = Some y"
    and "map_of (clusters m) k = Some c" and "alive m (workerID c)" and "js_succ k = k"
  shows False
proof -
  have "\<forall>c. map_of (clusters m) k = Some c \<longrightarrow> alive m (workerID c) \<longrightarrow> js_succ k = k \<longrightarrow> False"
  proof (rule broadcast.raw_induct
      [where P = "\<lambda>m k message y. \<forall>c. map_of (clusters m) k = Some c \<longrightarrow>
         alive m (workerID c) \<longrightarrow> js_succ k = k \<longrightarrow> False", OF _ assms(1)])
    fix broadcast' m start message y
    assume IH: "\<And>m start message y. broadcast' m start message = Some y \<Longrightarrow>
        \<forall>c. map_of (clusters m) start = Some c \<longrightarrow> alive m (workerID c) \<longrightarrow>
          js_succ start = start \<longrightarrow> False"
      and body: "(case map_of (clusters m) start of
          None \<Rightarrow> Some (None, m)
        | Some cluster \<Rightarrow>
            if alive m (workerID cluster)
            then broadcast' (send m (workerID cluster) message) (js_succ start) message
            else Some (Some TypeError, m)) = Some y"
    show "\<forall>c. map_of (clusters m) start = Some c \<longrightarrow> alive m (workerID c) \<longrightarrow>
        js_succ start = start \<longrightarrow> False"
    proof (intro allI impI)
      fix c
      assume c: "map_of (clusters m) start = Some c" "alive m (workerID c)"
        and j: "js_succ start = start"
      from body c j
      have a: "broadcast' (send m (workerID c) message) start message = Some y"
        by simp
      have "map_of (clusters (send m (workerID c) message)) start = Some c"
        "alive (send m (workerID c) message) (workerID c)"
        using c by (simp_all add: send_fields)
      with IH [OF a] j show False by blast
    qed
  qed
  with assms(2-) show False by blast
qed

lemma broadcast_at_two_to_53:
  "broadcast (one_cluster\<lparr>clusters := [(9007199254740992, raw 1)]\<rparr>) 9007199254740992
     connect_item = None"
proof (cases "broadcast (one_cluster\<lparr>clusters := [(9007199254740992, raw 1)]\<rparr>)
    9007199254740992 connect_item")
  case None
  then show ?thesis .
next
  case (Some y)
  have f: "cluster_workers one_cluster = [1]"
    by (simp add: one_cluster_def fork_def fresh_def ClusterManager_new_def)
  have j: "js_succ 9007199254740992 = 9007199254740992"
    by code_simp
  have False
    by (rule broadcast_never_returns [OF Some _ _ j, of "raw 1"])
      (simp_all add: alive_def raw_def f)
  then show ?thesis ..
qed

text \<open>
  C4 says that \<open>broadcast\<close> sends the message to the workers of the consecutive run of
  registered ids. The worker of a registered cluster is used without the test that
  \<open>sendTo\<close> makes: in \<open>worker_gone\<close> the clusters 0 and 1 are registered and the worker
  of cluster 1 is alive, but the worker of cluster 0 has exited, so \<open>broadcast(0, message)\<close>
  throws a \<open>TypeError\<close> there and the worker of cluster 1 is sent nothing. On the same
  state \<open>sendTo(0, message)\<close> drops the message silently.
\<close>

theorem broadcast_dead_worker_throws:
  "map_of (clusters worker_gone) 0 = Some (raw 1) \<and>
   map_of (clusters worker_gone) 1 = Some (raw 2) \<and>
   alive worker_gone (workerID (raw 2)) \<and>
   broadcast worker_gone 0 connect_item = Some (Some TypeError, worker_gone) \<and>
   (workerID (raw 2), connect_item) \<notin> set (sent worker_gone) \<and>
   sendTo worker_gone 0 connect_item = (None, worker_gone)"
proof -
  have b: "broadcast worker_gone 0 connect_item = Some (Some TypeError, worker_gone)"
    by (simp add: broadcast.simps [of worker_gone] worker_gone_fields alive_def raw_def)
  have s: "sendTo worker_gone 0 connect_item = (None, worker_gone)"
    by (simp add: sendTo_def worker_gone_fields alive_def raw_def)
  show ?thesis
    by (simp add: b s) (simp add: worker_gone_fields alive_def raw_def)
qed

section \<open>The shard count (C5)\<close>

lemma guild_count_exact:
  assumes "1 \<le> n" and "n * 1000 < 2 ^ 53"
  shows "fetchGuildCount (Some \<lparr>shards = Some n\<rparr>) = Inr (Finite (of_int (n * 1000)))"
proof -
  from assms have "\<bar>n * 1000\<bar> \<le> 2 ^ 53" by simp
  then have "to_double (of_int (n * 1000)) = Finite (of_int (n * 1000))"
    by (rule to_double_int)
  with assms(1) show ?thesis
    by (simp add: fetchGuildCount_def)
qed

text \<open>
  C5: when the gateway answers with \<open>shards \<ge> 1\<close>, \<open>fetchShardCount\<close> resolves to
  \<open>Math.max\<close> of the override and \<open>Math.ceil\<close> of \<open>shards * 1000 / guildsPerShard\<close>, and
  where \<open>shards \<times> 1000\<close> is below \<open>2 ^ 53\<close> and \<open>guildsPerShard\<close> at most \<open>2 ^ 53\<close> in
  absolute value, that is the maximum of the override and the exact ceiling of the
  exact quotient (for a quotient by zero, positive infinity). When the request fails or
  the answer has no shards, \<open>fetchGuildCount\<close> and \<open>fetchShardCount\<close> reject. With the
  defaults of the constructor (1500 guilds per shard, override 0) an estimate of 120000
  guilds gives 80 shards.
\<close>

theorem fetchShardCount_value:
  "(1 \<le> n \<longrightarrow>
      fetchShardCount m (Some \<lparr>shards = Some n\<rparr>) =
        Inr (math_max (ClusterManagerOptions.shardCountOverride (options m))
               (math_ceil (js_divide (to_double (of_int n * 1000))
                  (ClusterManagerOptions.guildsPerShard (options m)))))) \<and>
   (1 \<le> n \<and> n * 1000 < 2 ^ 53 \<and>
    \<bar>ClusterManagerOptions.guildsPerShard (options m)\<bar> \<le> 2 ^ 53 \<longrightarrow>
      fetchShardCount m (Some \<lparr>shards = Some n\<rparr>) =
        Inr (if ClusterManagerOptions.guildsPerShard (options m) = 0 then PosInfinity
             else Finite (of_int (max (ClusterManagerOptions.shardCountOverride (options m))
                    \<lceil>real_of_int (n * 1000) /
                      real_of_int (ClusterManagerOptions.guildsPerShard (options m))\<rceil>)))) \<and>
   fetchGuildCount None = Inl FetchFailed \<and>
   fetchGuildCount (Some \<lparr>shards = None\<rparr>) = Inl FetchFailed \<and>
   fetchGuildCount (Some \<lparr>shards = Some 0\<rparr>) = Inl FetchFailed \<and>
   fetchShardCount m None = Inl FetchFailed \<and>
   fetchShardCount m (Some \<lparr>shards = None\<rparr>) = Inl FetchFailed \<and>
   fetchShardCount m (Some \<lparr>shards = Some 0\<rparr>) = Inl FetchFailed \<and>
   fetchGuildCount (Some \<lparr>shards = Some 120\<rparr>) = Inr (Finite 120000) \<and>
   fetchShardCount fresh (Some \<lparr>shards = Some 120\<rparr>) = Inr (Finite 80)"
proof -
  have formula: "fetchShardCount m' (Some \<lparr>shards = Some k\<rparr>) =
        Inr (if ClusterManagerOptions.guildsPerShard (options m') = 0 then PosInfinity
             else Finite (of_int (max (ClusterManagerOptions.shardCountOverride (options m'))
                    \<lceil>real_of_int (k * 1000) /
                      real_of_int (ClusterManagerOptions.guildsPerShard (options m'))\<rceil>)))"
    if k: "1 \<le> k" "k * 1000 < 2 ^ 53"
      and g: "\<bar>ClusterManagerOptions.guildsPerShard (options m')\<bar> \<le> 2 ^ 53"
    for m' k
  proof -
    let ?b = "ClusterManagerOptions.guildsPerShard (options m')"
    let ?o = "ClusterManagerOptions.shardCountOverride (options m')"
    have count: "fetchGuildCount (Some \<lparr>shards = Some k\<rparr>) = Inr (Finite (of_int (k * 1000)))"
      using k by (rule guild_count_exact)
    have a: "0 < k * 1000" using k by simp
    show ?thesis
    proof (cases "?b = 0")
      case True
      with a show ?thesis
        by (simp add: fetchShardCount_def count)
    next
      case False
      have "math_ceil (js_divide (Finite (of_int (k * 1000))) ?b) =
          math_ceil (to_double (of_int (k * 1000) / of_int ?b))"
        using False by simp
      also have "\<dots> = Finite (of_int \<lceil>of_int (k * 1000) / of_int ?b :: rat\<rceil>)"
        using a k(2) False g by (rule to_double_quotient)
      also have "\<lceil>of_int (k * 1000) / of_int ?b :: rat\<rceil> =
          \<lceil>real_of_int (k * 1000) / real_of_int ?b\<rceil>"
        by (rule ceiling_rat_real)
      finally have "fetchShardCount m' (Some \<lparr>shards = Some k\<rparr>) =
          Inr (math_max ?o (Finite (of_int \<lceil>real_of_int (k * 1000) / real_of_int ?b\<rceil>)))"
        by (simp only: fetchShardCount_def count sum.case)
      with False show ?thesis
        by (simp flip: of_int_max)
    qed
  qed
  have failures:
    "fetchGuildCount None = Inl FetchFailed"
    "fetchGuildCount (Some \<lparr>shards = None\<rparr>) = Inl FetchFailed"
    "fetchGuildCount (Some \<lparr>shards = Some 0\<rparr>) = Inl FetchFailed"
    by (simp_all add: fetchGuildCount_def)
  have scenario: "fetchGuildCount (Some \<lparr>shards = Some 120\<rparr>) = Inr (Finite 120000)"
    using guild_count_exact [of 120] by simp
  have eighty: "fetchShardCount fresh (Some \<lparr>shards = Some 120\<rparr>) = Inr (Finite 80)"
    using formula [of 120 fresh] by (simp add: fresh_options)
  have doubles: "fetchShardCount m (Some \<lparr>shards = Some n\<rparr>) =
        Inr (math_max (ClusterManagerOptions.shardCountOverride (options m))
               (math_ceil (js_divide (to_double (of_int n * 1000))
                  (ClusterManagerOptions.guildsPerShard (options m)))))"
    if "1 \<le> n"
    using that by (simp add: fetchShardCount_def fetchGuildCount_def)
  have rejected:
    "fetchShardCount m None = Inl FetchFailed"
    "fetchShardCount m (Some \<lparr>shards = None\<rparr>) = Inl FetchFailed"
    "fetchShardCount m (Some \<lparr>shards = Some 0\<rparr>) = Inl FetchFailed"
    by (simp_all add: fetchShardCount_def failures)
  show ?thesis
    using doubles formula [of n m] by (intro conjI impI failures rejected scenario eighty) simp_all
qed

theorem fetchShardCount_value_witness:
  "(1::int) \<le> 3 \<and> (3::int) * 1000 < 2 ^ 53 \<and>
   \<bar>ClusterManagerOptions.guildsPerShard (options fresh)\<bar> \<le> 2 ^ 53 \<and>
   fetchShardCount fresh (Some \<lparr>shards = Some 3\<rparr>) = Inr (Finite 2)"
proof -
  have "(1::int) \<le> 3 \<and> (3::int) * 1000 < 2 ^ 53 \<and>
    \<bar>ClusterManagerOptions.guildsPerShard (options fresh)\<bar> \<le> 2 ^ 53 \<longrightarrow>
      fetchShardCount fresh (Some \<lparr>shards = Some 3\<rparr>) =
        Inr (if ClusterManagerOptions.guildsPerShard (options fresh) = 0 then PosInfinity
             else Finite (of_int (max (ClusterManagerOptions.shardCountOverride (options fresh))
                    \<lceil>real_of_int (3 * 1000) /
                      real_of_int (ClusterManagerOptions.guildsPerShard (options fresh))\<rceil>)))"
    by (rule conjunct1 [OF conjunct2 [OF fetchShardCount_value [of 3 fresh]]])
  then show ?thesis
    by (simp add: fresh_options)
qed

section \<open>Lookup by worker id (C6)\<close>

text \<open>
  C6 says that a spawned config is found both by its id and by its worker id. Ids and
  worker ids share the one argument of \<open>getCluster\<close>, and the first config that matches
  either way wins. With the configs 2 and 3, started in that order, config 3 runs in
  worker 2: the lookup by its id 3 returns config 3, the lookup by its worker id 2
  returns config 2.
\<close>

theorem getCluster_by_workerId_differs:
  "getCluster both_started 3 = Some ((example_config 3)\<lparr>workerId := Some 2\<rparr>) \<and>
   getCluster both_started 2 = Some ((example_config 2)\<lparr>workerId := Some 1\<rparr>) \<and>
   getCluster both_started 3 \<noteq> getCluster both_started 2"
  by (simp add: getCluster_def both_started_configs matches_def example_config_def)

section \<open>A send to one cluster (C7)\<close>

text \<open>
  C7 says that \<open>sendTo\<close> drops the message silently when the cluster id is not in the
  map. The entry is read without a test: on the manager the constructor returns, whose
  map is empty, \<open>sendTo(0, message)\<close> throws a \<open>TypeError\<close>.
\<close>

theorem sendTo_unregistered_throws:
  "map_of (clusters fresh) 0 = None \<and> sendTo fresh 0 connect_item = (Some TypeError, fresh)"
  by (simp add: sendTo_def fresh_def ClusterManager_new_def)

text \<open>The other half holds: a registered cluster whose worker is gone gets nothing, silently.\<close>

lemma sendTo_dead_worker:
  "map_of (clusters m) i = Some c \<Longrightarrow> \<not> alive m (workerID c) \<Longrightarrow> sendTo m i message = (None, m)"
  by (simp add: sendTo_def)

section \<open>The worker connects (C8)\<close>

text \<open>
  C8: on a \<open>connect\<close> message with a positive shard count the worker makes exactly these
  calls, in this order: the constructor of the client, once, then the three listeners,
  then \<open>connect\<close>. The options the constructor gets have the shard range and the shard
  count of the message and the auto-reconnect flag set, whatever the embedding
  configuration held in those fields; its other options are kept.
\<close>

theorem connect_message_connects:
  assumes "name message = Some ''connect''"
    and "ipc_message.shardCount message = Some n" and "0 < n"
  shows "\<exists>opts.
      calls (on_message w message) =
        calls w @ [New (worker.token w) opts, On ''connect'', On ''shardReady'', On ''ready'',
                   Connect] \<and>
      ClientOptions.firstShardID opts = ipc_message.firstShardID message \<and>
      ClientOptions.lastShardID opts = ipc_message.lastShardID message \<and>
      ClientOptions.maxShards opts = Some n \<and>
      ClientOptions.autoreconnect opts = Some True \<and>
      ClientOptions.rest opts = ClientOptions.rest (worker.clientOptions w) \<and>
      client (agent (on_message w message)) =
        Some \<lparr>client_token = worker.token w, client_options = opts\<rparr> \<and>
      worker.clientOptions (on_message w message) = opts"
  using assms by (simp add: on_message_def connect_def positive_def Let_def)

theorem connect_message_connects_witness:
  "name connect_message = Some ''connect'' \<and>
   ipc_message.shardCount connect_message = Some 4 \<and> (0::int) < 4 \<and>
   calls (on_message configured_worker connect_message) =
     [New ''token''
        \<lparr>autoreconnect = Some True, ClientOptions.firstShardID = Some 0,
         ClientOptions.lastShardID = Some 3, maxShards = Some 4,
         rest = [(''compress'', ''true'')]\<rparr>,
      On ''connect'', On ''shardReady'', On ''ready'', Connect]"
proof -
  have a: "name connect_message = Some ''connect''"
    and b: "ipc_message.shardCount connect_message = Some 4"
    and ends: "ipc_message.firstShardID connect_message = Some 0"
      "ipc_message.lastShardID connect_message = Some 3"
    by (simp_all add: connect_message_def connect_item_def)
  have c: "(0::int) < 4"
    by simp
  have w: "calls configured_worker = []" "worker.token configured_worker = ''token''"
    "ClientOptions.rest (worker.clientOptions configured_worker) = [(''compress'', ''true'')]"
    by (simp_all add: configured_worker_def worker_new_def no_ClientOptions_def)
  from connect_message_connects [OF a b c, of configured_worker]
  obtain opts where calls: "calls (on_message configured_worker connect_message) =
        calls configured_worker @
          [New (worker.token configured_worker) opts, On ''connect'', On ''shardReady'',
           On ''ready'', Connect]"
    and fields: "ClientOptions.firstShardID opts = ipc_message.firstShardID connect_message"
      "ClientOptions.lastShardID opts = ipc_message.lastShardID connect_message"
      "ClientOptions.maxShards opts = Some 4"
      "ClientOptions.autoreconnect opts = Some True"
      "ClientOptions.rest opts = ClientOptions.rest (worker.clientOptions configured_worker)"
    by blast
  from fields have "opts =
      \<lparr>autoreconnect = Some True, ClientOptions.firstShardID = Some 0,
       ClientOptions.lastShardID = Some 3, maxShards = Some 4,
       rest = [(''compress'', ''true'')]\<rparr>"
    by (cases opts) (simp add: ends w)
  with calls have "calls (on_message configured_worker connect_message) =
     [New ''token''
        \<lparr>autoreconnect = Some True, ClientOptions.firstShardID = Some 0,
         ClientOptions.lastShardID = Some 3, maxShards = Some 4,
         rest = [(''compress'', ''true'')]\<rparr>,
      On ''connect'', On ''shardReady'', On ''ready'', Connect]"
    by (simp add: w)
  with a b c show ?thesis
    by (intro conjI)
qed

section \<open>The map of clusters is never filled (C9)\<close>

lemma updateStats_clusters: "clusters (updateStats m ws start) = clusters m"
proof (induction m ws start rule: updateStats.induct)
  case (1 m ws start)
  then show ?case
    by (simp add: updateStats.simps [of m] send_def)
qed

lemma startCluster_clusters: "clusters (startCluster m i) = clusters m"
  by (simp add: startCluster_def fork_def split: option.splits)

lemma addCluster_clusters: "clusters (snd (addCluster m config)) = clusters m"
  by (simp add: addCluster_def split: option.splits)

lemma sendTo_clusters: "clusters (snd (sendTo m i message)) = clusters m"
  by (simp add: sendTo_def send_def split: option.splits)

lemma on_execute_clusters: "clusters (snd (on_execute m item)) = clusters m"
  by (simp add: on_execute_def send_def split: option.splits)

lemma worker_exit_clusters: "clusters (worker_exit m worker code) = clusters m"
  by (simp add: worker_exit_def on_exit_def restartCluster_def)

lemma exec_empty:
  "clusters m = [] \<Longrightarrow> \<exists>e m'. exec x m = Some (e, m') \<and> clusters m' = []"
  "clusters m = [] \<Longrightarrow> \<exists>e m'. exec_list xs m = Some (e, m') \<and> clusters m' = []"
proof (induction x m and xs m rule: exec_exec_list.induct)
  case (2 config m)
  then show ?case
    using addCluster_clusters [of m config] by (cases "addCluster m config") simp
next
  case (4 cs conn m)
  let ?m0 = "m\<lparr>invoked := invoked m @ [ClusterStrategy]\<rparr>"
  from 4 obtain e m1 where first: "exec_list cs ?m0 = Some (e, m1)" "clusters m1 = []"
    by fastforce
  show ?case
  proof (cases "e = None \<and> configs m1 \<noteq> []")
    case True
    with first "4.IH"(2) [of "(e, m1)" e m1] show ?thesis
      by simp
  next
    case False
    with first show ?thesis
      by (cases e) auto
  qed
next
  case (5 start e v m)
  then show ?case by (simp add: fetchInfo.simps [of m])
next
  case (7 start message m)
  then show ?case by (simp add: broadcast.simps [of m])
next
  case (8 i message m)
  then show ?case
    using sendTo_clusters [of m i message] by (cases "sendTo m i message") simp
next
  case (9 item m)
  then show ?case
    using on_execute_clusters [of m item] by (cases "on_execute m item") simp
next
  case (12 x xs m)
  from 12 obtain e m1 where first: "exec x m = Some (e, m1)" "clusters m1 = []"
    by fastforce
  show ?case
  proof (cases e)
    case None
    with first "12.IH"(2) [of "(e, m1)" e m1] show ?thesis
      by simp
  next
    case (Some err)
    with first show ?thesis by simp
  qed
qed (simp_all add: startCluster_clusters removeCluster_def updateStats_clusters
    worker_exit_clusters)

lemma run_empty: "clusters m = [] \<Longrightarrow> \<exists>m'. run ops m = Some m' \<and> clusters m' = []"
proof (induction ops arbitrary: m)
  case Nil
  then show ?case by simp
next
  case (Cons x ops)
  from exec_empty(1) [OF Cons.prems, of x]
  obtain e m1 where "exec x m = Some (e, m1)" "clusters m1 = []"
    by blast
  with Cons.IH [of m1] show ?case
    by simp
qed

text \<open>
  C9: no operation of the manager writes the map \<open>clusters\<close>. After the constructor and
  any sequence of operations (a launch with any strategies among them) every call has
  returned and the map is empty, and from every starting id \<open>broadcast\<close> and
  \<open>fetchInfo\<close> return at once: they send nothing and leave the state as it is.
\<close>

theorem clusters_map_stays_empty:
  "\<exists>m. run ops (ClusterManager_new tok opts) = Some m \<and> clusters m = [] \<and>
     broadcast m s message = Some (None, m) \<and>
     fetchInfo m s e v = Some (None, m)"
proof -
  have "clusters (ClusterManager_new tok opts) = []"
    by (simp add: ClusterManager_new_def)
  then obtain m where m: "run ops (ClusterManager_new tok opts) = Some m" "clusters m = []"
    using run_empty by blast
  from m(2) have "broadcast m s message = Some (None, m)" "fetchInfo m s e v = Some (None, m)"
    by (simp_all add: broadcast.simps [of m] fetchInfo.simps [of m])
  with m show ?thesis by blast
qed

theorem clusters_map_stays_empty_witness:
  "run [AddCluster (example_config 0), StartCluster 0,
       Launch [AddCluster (example_config 5)] [StartCluster 5], Broadcast 0 connect_item]
     (ClusterManager_new ''token'' no_options) \<noteq> None \<and>
   clusters (the (run [AddCluster (example_config 0), StartCluster 0,
       Launch [AddCluster (example_config 5)] [StartCluster 5], Broadcast 0 connect_item]
     (ClusterManager_new ''token'' no_options))) = [] \<and>
   broadcast (the (run [AddCluster (example_config 0), StartCluster 0,
       Launch [AddCluster (example_config 5)] [StartCluster 5], Broadcast 0 connect_item]
     (ClusterManager_new ''token'' no_options))) 0 connect_item =
     Some (None, the (run [AddCluster (example_config 0), StartCluster 0,
       Launch [AddCluster (example_config 5)] [StartCluster 5], Broadcast 0 connect_item]
     (ClusterManager_new ''token'' no_options)))"
proof -
  let ?ops = "[AddCluster (example_config 0), StartCluster 0,
       Launch [AddCluster (example_config 5)] [StartCluster 5], Broadcast 0 connect_item]"
  from clusters_map_stays_empty [of ?ops "''token''" no_options 0 connect_item]
  obtain m where "run ?ops (ClusterManager_new ''token'' no_options) = Some m"
    "clusters m = []" "broadcast m 0 connect_item = Some (None, m)"
    by blast
  then show ?thesis by simp
qed

section \<open>A connect message without shards (C10)\<close>

text \<open>
  C10: on a \<open>connect\<close> message whose shard count is zero or negative the worker records
  the cluster id, the shard range and the shard count of the message, and does nothing
  else: no call is made on the client class, the field \<open>client\<close> stays as it was (unset,
  if it was unset) and the options of the manager are not changed.
\<close>

theorem connect_message_without_shards:
  assumes "name message = Some ''connect''"
    and "ipc_message.shardCount message = Some n" and "n \<le> 0"
  shows "Cluster.id' (agent (on_message w message)) = clusterID message \<and>
      Cluster.firstShardID (agent (on_message w message)) = ipc_message.firstShardID message \<and>
      Cluster.lastShardID (agent (on_message w message)) = ipc_message.lastShardID message \<and>
      Cluster.shardCount (agent (on_message w message)) = Some n \<and>
      client (agent (on_message w message)) = client (agent w) \<and>
      calls (on_message w message) = calls w \<and>
      worker.clientOptions (on_message w message) = worker.clientOptions w"
  using assms by (simp add: on_message_def positive_def Let_def)

theorem connect_message_without_shards_witness:
  "name (connect_message\<lparr>ipc_message.shardCount := Some 0\<rparr>) = Some ''connect'' \<and>
   ipc_message.shardCount (connect_message\<lparr>ipc_message.shardCount := Some 0\<rparr>) = Some 0 \<and>
   (0::int) \<le> 0 \<and>
   Cluster.id' (agent (on_message configured_worker
       (connect_message\<lparr>ipc_message.shardCount := Some 0\<rparr>))) = Some 0 \<and>
   client (agent (on_message configured_worker
       (connect_message\<lparr>ipc_message.shardCount := Some 0\<rparr>))) = None \<and>
   calls (on_message configured_worker
       (connect_message\<lparr>ipc_message.shardCount := Some 0\<rparr>)) = []"
proof -
  let ?message = "connect_message\<lparr>ipc_message.shardCount := Some 0\<rparr>"
  have a: "name ?message = Some ''connect''"
    and b: "ipc_message.shardCount ?message = Some 0"
    and i: "clusterID ?message = Some 0"
    by (simp_all add: connect_message_def connect_item_def)
  have c: "(0::int) \<le> 0"
    by simp
  have w: "calls configured_worker = []" "client (agent configured_worker) = None"
    by (simp_all add: configured_worker_def worker_new_def Cluster_new_def)
  from connect_message_without_shards [OF a b c, of configured_worker]
  have "Cluster.id' (agent (on_message configured_worker ?message)) = Some 0"
    and "client (agent (on_message configured_worker ?message)) = None"
    and "calls (on_message configured_worker ?message) = []"
    by (simp_all add: i w)
  with a b c show ?thesis
    by (intro conjI)
qed

end
